theory Spec2Isabelle
  imports Main "HOL-Library.Word" "HOL-Library.AList"
begin

section \<open>Job status marshalling (source/jobs/JobStatus.cpp)\<close>

text \<open>
  The seven enumerators of \<open>JobStatus\<close>. A C++ enum object can also hold a value that is
  none of its enumerators (\<open>static_cast<JobStatus>(-1)\<close> in \<open>FromString\<close>), so the values
  the marshaller handles are \<open>JobStatus_value\<close>.
\<close>

datatype JobStatus = QUEUED | IN_PROGRESS | FAILED | SUCCESS | CANCELED | REJECTED | REMOVED

datatype JobStatus_value = Enumerator JobStatus | OutOfRange int

text \<open>
  \<open>assert(0)\<close> aborts the process when assertions are compiled in; with \<open>NDEBUG\<close> the
  statement after it runs. The flag \<open>ndebug\<close> says which build it is.
\<close>

datatype failure = AssertionFailed

definition assert0 :: "bool \<Rightarrow> 'a \<Rightarrow> failure + 'a" where
  "assert0 ndebug fallthrough = (if ndebug then Inr fallthrough else Inl AssertionFailed)"

fun ToString :: "bool \<Rightarrow> JobStatus_value \<Rightarrow> failure + string" where
  "ToString ndebug (Enumerator QUEUED) = Inr ''QUEUED''"
| "ToString ndebug (Enumerator IN_PROGRESS) = Inr ''IN_PROGRESS''"
| "ToString ndebug (Enumerator FAILED) = Inr ''FAILED''"
| "ToString ndebug (Enumerator SUCCESS) = Inr ''SUCCESS''"
| "ToString ndebug (Enumerator CANCELED) = Inr ''CANCELED''"
| "ToString ndebug (Enumerator REJECTED) = Inr ''REJECTED''"
| "ToString ndebug (Enumerator REMOVED) = Inr ''REMOVED''"
| "ToString ndebug (OutOfRange v) = assert0 ndebug ''UNKNOWN_STATUS''"

text \<open>
  \<open>str.c_str()\<close> hands \<open>HashString\<close> a C string: the characters before the first NUL.
\<close>

definition c_str :: "string \<Rightarrow> string" where
  "c_str s = takeWhile (\<lambda>c. c \<noteq> CHR 0x00) s"

text \<open>
  \<open>Aws::Crt::HashString\<close> belongs to the CRT library, not to this repository: it is the
  parameter \<open>HashString\<close>, a function from C strings to \<open>size_t\<close>. The seven static
  constants are its values at the seven names.
\<close>

definition FromString :: "(string \<Rightarrow> 'w::len word) \<Rightarrow> bool \<Rightarrow> string \<Rightarrow> failure + JobStatus_value" where
  "FromString HashString ndebug str =
     (let hash = HashString (c_str str) in
      if hash = HashString ''QUEUED'' then Inr (Enumerator QUEUED)
      else if hash = HashString ''IN_PROGRESS'' then Inr (Enumerator IN_PROGRESS)
      else if hash = HashString ''FAILED'' then Inr (Enumerator FAILED)
      else if hash = HashString ''SUCCESS'' then Inr (Enumerator SUCCESS)
      else if hash = HashString ''CANCELED'' then Inr (Enumerator CANCELED)
      else if hash = HashString ''REJECTED'' then Inr (Enumerator REJECTED)
      else if hash = HashString ''REMOVED'' then Inr (Enumerator REMOVED)
      else assert0 ndebug (OutOfRange (- 1)))"

text \<open>The seven recognised names, and a concrete hash to run the marshaller with.\<close>

definition statusNames :: "string list" where
  "statusNames = [''QUEUED'', ''IN_PROGRESS'', ''FAILED'', ''SUCCESS'', ''CANCELED'', ''REJECTED'', ''REMOVED'']"

definition sampleHash :: "string \<Rightarrow> 64 word" where
  "sampleHash s = foldl (\<lambda>h c. h * 33 + of_nat (of_char c)) 5381 s"

section \<open>Version Guard\<close>

datatype verdict = Advance | StaleIgnore

text \<open>
  Modelled from the spec: the Version Guard's \<open>accept(candidateVersion, currentVersion)\<close>
  has no source file; this is section 4.4 word for word. A version is a non-negative
  integer, the current one is unset (\<open>None\<close>) until first observed.
\<close>

definition accept :: "nat \<Rightarrow> nat option \<Rightarrow> verdict" where
  "accept candidateVersion currentVersion =
     (case currentVersion of
        None \<Rightarrow> Advance
      | Some cur \<Rightarrow> if candidateVersion > cur then Advance else StaleIgnore)"

section \<open>JSON documents (the CRT's JsonObject and JsonView, as the sample uses them)\<close>

text \<open>
  \<open>Aws::Crt::JsonObject\<close> and \<open>JsonView\<close> are library types, not part of this
  repository. A document is a JSON value; an object keeps its members in order, and a
  lookup (\<open>objectItem\<close>) finds the first member with the key. A default-constructed
  \<open>JsonObject\<close> holds no value yet (\<open>JNull\<close>) and becomes an object with the first
  member it is given. \<open>GetString\<close> of a member that is not a string is taken to be
  the empty string.

  What \<open>ValueExists\<close> answers for a key that is present with the value null is library
  behaviour that the sources do not settle, and the sample depends on it: it tests
  \<open>objectView.IsNull()\<close> only after \<open>ValueExists\<close> has held. So that answer is the
  parameter \<open>nullExists\<close>. For an absent key \<open>ValueExists\<close> is false, for a key with
  any other value it is true.
\<close>

datatype json =
    JNull
  | JBool bool
  | JNumber int
  | JString string
  | JArray "json list"
  | JObject "(string \<times> json) list"

fun objectItem :: "json \<Rightarrow> string \<Rightarrow> json option" where
  "objectItem (JObject kvs) key = map_of kvs key"
| "objectItem _ key = None"

definition ValueExists :: "bool \<Rightarrow> json \<Rightarrow> string \<Rightarrow> bool" where
  "ValueExists nullExists doc key =
     (case objectItem doc key of
        None \<Rightarrow> False
      | Some v \<Rightarrow> if v = JNull then nullExists else True)"

definition GetJsonObject :: "json \<Rightarrow> string \<Rightarrow> json" where
  "GetJsonObject doc key = (case objectItem doc key of Some v \<Rightarrow> v | None \<Rightarrow> JNull)"

definition IsNull :: "json \<Rightarrow> bool" where
  "IsNull doc = (doc = JNull)"

definition GetString :: "json \<Rightarrow> string \<Rightarrow> string" where
  "GetString doc key = (case objectItem doc key of Some (JString str) \<Rightarrow> str | _ \<Rightarrow> [])"

fun addOrReplace :: "string \<Rightarrow> json \<Rightarrow> json \<Rightarrow> json" where
  "addOrReplace key v (JObject kvs) = JObject (AList.update key v kvs)"
| "addOrReplace key v _ = JObject [(key, v)]"

definition WithString :: "string \<Rightarrow> string \<Rightarrow> json \<Rightarrow> json" where
  "WithString key str doc = addOrReplace key (JString str) doc"

definition WithObject :: "string \<Rightarrow> json \<Rightarrow> json \<Rightarrow> json" where
  "WithObject key obj doc = addOrReplace key obj doc"

section \<open>The shadow-sync sample (samples/shadow/shadow_sync/main.cpp)\<close>

subsection \<open>Messages\<close>

text \<open>
  Modelled from the spec: the headers of the message classes are not among the sources.
  Each record has the optional members the sample reads or writes; the delta event also
  has the replica version that the spec's ChangeNotification carries (a non-negative
  integer when present).
\<close>

record UpdateShadowRequest =
  req_ClientToken :: "string option"
  req_State :: "json option"
  req_ThingName :: "string option"

record ShadowDeltaUpdatedEvent =
  delta_State :: "json option"
  delta_Version :: "nat option"

record ShadowState =
  Reported :: "json option"
  Desired :: "json option"

record UpdateShadowResponse =
  resp_State :: "ShadowState option"
  resp_ClientToken :: "string option"
  resp_Version :: "nat option"

record ErrorResponse =
  err_Message :: "string option"
  err_Code :: "int option"

subsection \<open>The state the callbacks share\<close>

text \<open>
  The model starts where \<open>main\<close> has connected and issued its three subscribe calls
  (line 419). The main thread is then in one of two places: blocked in the wait for the
  subscriptions (\<open>AwaitingSubscriptions\<close>, line 420) or in the input loop (\<open>Synced\<close>, line
  424). \<open>exited\<close> is set when the process ends: \<open>exit(-1)\<close>, the \<open>return 0\<close> after the
  loop, or a dereference of a null pointer or empty \<open>Optional\<close>.
\<close>

datatype phase = AwaitingSubscriptions | Synced

datatype ending = Exit int | UndefinedBehaviour

text \<open>What the sample prints, one constructor for each \<open>fprintf\<close>, with its arguments.\<close>

datatype line =
    Changing_local_shadow_value string
  | Error_subscribing_to_shadow_delta int
  | Error_subscribing_to_shadow_delta_accepted int
  | Error_subscribing_to_shadow_delta_rejected int
  | Received_shadow_delta_event
  | Delta_reports_deleted string
  | Delta_reports_desired string string
  | Delta_did_not_report_a_change string
  | Error_processing_shadow_delta int
  | Finished_updating_reported string
  | Enter_desired_value
  | Update_failed string int
  | Error_on_subscription int
  | Enter_Desired_state_of string
  | Exiting

record sample =
  subscribeDeltaCompleted :: bool
  subscribeDeltaAccepedCompleted :: bool
  subscribeDeltaRejectedCompleted :: bool
  phase :: phase
  published :: "UpdateShadowRequest list"
  uuidsDrawn :: nat
  console :: "line list"
  exited :: "ending option"

text \<open>
  What the sample takes from outside: the command line's \<open>--thing_name\<close> and
  \<open>--shadow_property\<close>, the values that successive calls of \<open>Aws::Crt::UUID()\<close>
  return, and the library's answer of \<open>ValueExists\<close> for a null member.
\<close>

record config =
  thingName :: string
  shadowProperty :: string
  UUID :: "nat \<Rightarrow> string"
  nullValueExists :: bool

definition SHADOW_VALUE_DEFAULT :: string where
  "SHADOW_VALUE_DEFAULT = ''off''"

definition AWS_OP_SUCCESS :: int where
  "AWS_OP_SUCCESS = 0"

definition print :: "line \<Rightarrow> sample \<Rightarrow> sample" where
  "print l s = s\<lparr>console := console s @ [l]\<rparr>"

definition exit_with :: "int \<Rightarrow> sample \<Rightarrow> sample" where
  "exit_with code s = s\<lparr>exited := Some (Exit code)\<rparr>"

text \<open>
  \<open>client.PublishUpdateShadow\<close> hands the request to the transport: the model records it
  in \<open>published\<close>. Its completion callback only prints and is left out.
\<close>

definition PublishUpdateShadow :: "UpdateShadowRequest \<Rightarrow> sample \<Rightarrow> sample" where
  "PublishUpdateShadow request s = s\<lparr>published := published s @ [request]\<rparr>"

subsection \<open>s_changeShadowValue\<close>

definition stateDocumentFor :: "string \<Rightarrow> string \<Rightarrow> json" where
  "stateDocumentFor property v =
     (let stateDocument = JNull;
          reported = WithString property v JNull;
          stateDocument = WithObject ''reported'' reported stateDocument;
          desired = WithString property v JNull;
          stateDocument = WithObject ''desired'' desired stateDocument
      in stateDocument)"

definition s_changeShadowValue :: "config \<Rightarrow> string \<Rightarrow> sample \<Rightarrow> sample" where
  "s_changeShadowValue cfg v s =
     (let s = print (Changing_local_shadow_value v) s;
          updateShadowRequest =
            \<lparr>req_ClientToken = Some (UUID cfg (uuidsDrawn s)),
             req_State = Some (stateDocumentFor (shadowProperty cfg) v),
             req_ThingName = Some (thingName cfg)\<rparr>
      in PublishUpdateShadow updateShadowRequest (s\<lparr>uuidsDrawn := Suc (uuidsDrawn s)\<rparr>))"

subsection \<open>The main thread's wait, and the callbacks\<close>

text \<open>
  The wait on line 420 returns once its predicate holds. The main thread is woken by
  \<open>conditionVariable.notify_one()\<close> and checks the predicate again; when it holds the
  thread enters the input loop and prints the prompt.
\<close>

definition subscriptionsCompleted :: "sample \<Rightarrow> bool" where
  "subscriptionsCompleted s =
     (subscribeDeltaCompleted s \<and> subscribeDeltaAccepedCompleted s \<and> subscribeDeltaRejectedCompleted s)"

definition notify_one :: "config \<Rightarrow> sample \<Rightarrow> sample" where
  "notify_one cfg s =
     (if phase s = AwaitingSubscriptions \<and> subscriptionsCompleted s
      then print (Enter_Desired_state_of (shadowProperty cfg)) (s\<lparr>phase := Synced\<rparr>)
      else s)"

definition onDeltaUpdatedSubAck :: "config \<Rightarrow> int \<Rightarrow> sample \<Rightarrow> sample" where
  "onDeltaUpdatedSubAck cfg ioErr s =
     (if ioErr \<noteq> AWS_OP_SUCCESS
      then exit_with (- 1) (print (Error_subscribing_to_shadow_delta ioErr) s)
      else notify_one cfg (s\<lparr>subscribeDeltaCompleted := True\<rparr>))"

definition onDeltaUpdatedAcceptedSubAck :: "config \<Rightarrow> int \<Rightarrow> sample \<Rightarrow> sample" where
  "onDeltaUpdatedAcceptedSubAck cfg ioErr s =
     (if ioErr \<noteq> AWS_OP_SUCCESS
      then exit_with (- 1) (print (Error_subscribing_to_shadow_delta_accepted ioErr) s)
      else notify_one cfg (s\<lparr>subscribeDeltaAccepedCompleted := True\<rparr>))"

definition onDeltaUpdatedRejectedSubAck :: "config \<Rightarrow> int \<Rightarrow> sample \<Rightarrow> sample" where
  "onDeltaUpdatedRejectedSubAck cfg ioErr s =
     (let s = (if ioErr \<noteq> AWS_OP_SUCCESS
               then print (Error_subscribing_to_shadow_delta_rejected ioErr) s else s)
      in notify_one cfg (s\<lparr>subscribeDeltaRejectedCompleted := True\<rparr>))"

definition onDeltaUpdated :: "config \<Rightarrow> ShadowDeltaUpdatedEvent option \<Rightarrow> int \<Rightarrow> sample \<Rightarrow> sample" where
  "onDeltaUpdated cfg event ioErr s =
     (let s =
        (case event of
           None \<Rightarrow> s
         | Some ev \<Rightarrow>
             (let s = print Received_shadow_delta_event s in
              case delta_State ev of
                None \<Rightarrow> print (Delta_did_not_report_a_change (shadowProperty cfg)) s
              | Some st \<Rightarrow>
                  if ValueExists (nullValueExists cfg) st (shadowProperty cfg) then
                    (let objectView = GetJsonObject st (shadowProperty cfg) in
                     if IsNull objectView then
                       s_changeShadowValue cfg SHADOW_VALUE_DEFAULT
                         (print (Delta_reports_deleted (shadowProperty cfg)) s)
                     else
                       s_changeShadowValue cfg (GetString st (shadowProperty cfg))
                         (print (Delta_reports_desired (shadowProperty cfg)
                                   (GetString st (shadowProperty cfg))) s))
                  else print (Delta_did_not_report_a_change (shadowProperty cfg)) s))
      in if ioErr \<noteq> 0
         then exit_with (- 1) (print (Error_processing_shadow_delta ioErr) s)
         else s)"

definition onUpdateShadowAccepted :: "config \<Rightarrow> UpdateShadowResponse option \<Rightarrow> int \<Rightarrow> sample \<Rightarrow> sample" where
  "onUpdateShadowAccepted cfg response ioErr s =
     (if ioErr = AWS_OP_SUCCESS then
        (case response of
           None \<Rightarrow> s\<lparr>exited := Some UndefinedBehaviour\<rparr>
         | Some r \<Rightarrow>
             (case resp_State r of
                None \<Rightarrow> s\<lparr>exited := Some UndefinedBehaviour\<rparr>
              | Some st \<Rightarrow>
                  (case Reported st of
                     None \<Rightarrow> s\<lparr>exited := Some UndefinedBehaviour\<rparr>
                   | Some rep \<Rightarrow>
                       print Enter_desired_value
                         (print (Finished_updating_reported (GetString rep (shadowProperty cfg))) s))))
      else exit_with (- 1) (print (Error_on_subscription ioErr) s))"

definition onUpdateShadowRejected :: "ErrorResponse option \<Rightarrow> int \<Rightarrow> sample \<Rightarrow> sample" where
  "onUpdateShadowRejected error ioErr s =
     (if ioErr = AWS_OP_SUCCESS then
        (case error of
           None \<Rightarrow> s\<lparr>exited := Some UndefinedBehaviour\<rparr>
         | Some e \<Rightarrow>
             (case (err_Message e, err_Code e) of
                (Some m, Some c) \<Rightarrow> print (Update_failed m c) s
              | _ \<Rightarrow> s\<lparr>exited := Some UndefinedBehaviour\<rparr>))
      else exit_with (- 1) (print (Error_on_subscription ioErr) s))"

subsection \<open>The input loop and the events\<close>

text \<open>
  \<open>std::cin >> input\<close> is the event \<open>Input\<close>; the main thread reads only while it is
  in the loop. An event reaches its callback as long as the process has not ended.
\<close>

definition inputLoop :: "config \<Rightarrow> string \<Rightarrow> sample \<Rightarrow> sample" where
  "inputLoop cfg input s =
     (if phase s \<noteq> Synced then s
      else if input = ''exit'' \<or> input = ''quit'' then exit_with 0 (print Exiting s)
      else print (Enter_Desired_state_of (shadowProperty cfg)) (s_changeShadowValue cfg input s))"

datatype event =
    DeltaUpdatedSubAck int
  | DeltaUpdatedAcceptedSubAck int
  | DeltaUpdatedRejectedSubAck int
  | DeltaUpdated "ShadowDeltaUpdatedEvent option" int
  | UpdateShadowAccepted "UpdateShadowResponse option" int
  | UpdateShadowRejected "ErrorResponse option" int
  | Input string

fun handle :: "config \<Rightarrow> event \<Rightarrow> sample \<Rightarrow> sample" where
  "handle cfg (DeltaUpdatedSubAck ioErr) s = onDeltaUpdatedSubAck cfg ioErr s"
| "handle cfg (DeltaUpdatedAcceptedSubAck ioErr) s = onDeltaUpdatedAcceptedSubAck cfg ioErr s"
| "handle cfg (DeltaUpdatedRejectedSubAck ioErr) s = onDeltaUpdatedRejectedSubAck cfg ioErr s"
| "handle cfg (DeltaUpdated ev ioErr) s = onDeltaUpdated cfg ev ioErr s"
| "handle cfg (UpdateShadowAccepted response ioErr) s = onUpdateShadowAccepted cfg response ioErr s"
| "handle cfg (UpdateShadowRejected error ioErr) s = onUpdateShadowRejected error ioErr s"
| "handle cfg (Input input) s = inputLoop cfg input s"

definition deliver :: "config \<Rightarrow> event \<Rightarrow> sample \<Rightarrow> sample" where
  "deliver cfg e s = (if exited s \<noteq> None then s else handle cfg e s)"

definition run :: "config \<Rightarrow> sample \<Rightarrow> event list \<Rightarrow> sample" where
  "run cfg s es = foldl (\<lambda>s e. deliver cfg e s) s es"

definition started :: sample where
  "started =
     \<lparr>subscribeDeltaCompleted = False, subscribeDeltaAccepedCompleted = False,
      subscribeDeltaRejectedCompleted = False, phase = AwaitingSubscriptions,
      published = [], uuidsDrawn = 0, console = [], exited = None\<rparr>"

text \<open>A configuration and messages to run the sample on.\<close>

definition demo :: config where
  "demo = \<lparr>thingName = ''lamp'', shadowProperty = ''power'',
           UUID = (\<lambda>n. ''token-'' @ replicate n CHR ''i''), nullValueExists = False\<rparr>"

definition subscribed :: "event list" where
  "subscribed = [DeltaUpdatedSubAck 0, DeltaUpdatedAcceptedSubAck 0, DeltaUpdatedRejectedSubAck 0]"

definition delta :: "json \<Rightarrow> nat \<Rightarrow> event" where
  "delta v n =
     DeltaUpdated (Some \<lparr>delta_State = Some (JObject [(''power'', v)]), delta_Version = Some n\<rparr>) 0"

text \<open>
  The request that mirrors the value \<open>v\<close> into both partitions of the state, with the
  \<open>n\<close>-th UUID as its token: what the theorems compare the published requests with.
\<close>

definition requestFor :: "config \<Rightarrow> nat \<Rightarrow> string \<Rightarrow> UpdateShadowRequest" where
  "requestFor cfg n v =
     \<lparr>req_ClientToken = Some (UUID cfg n),
      req_State = Some (JObject [(''reported'', JObject [(shadowProperty cfg, JString v)]),
                                 (''desired'', JObject [(shadowProperty cfg, JString v)])]),
      req_ThingName = Some (thingName cfg)\<rparr>"

text \<open>
  The string the delta callback passes to \<open>s_changeShadowValue\<close> once \<open>ValueExists\<close>
  has held for the watched property: the default for a null member, and otherwise what
  \<open>GetString\<close> reads.
\<close>

definition desiredValue :: "config \<Rightarrow> json \<Rightarrow> string" where
  "desiredValue cfg st =
     (if IsNull (GetJsonObject st (shadowProperty cfg)) then SHADOW_VALUE_DEFAULT
      else GetString st (shadowProperty cfg))"

section \<open>Correlation Registry\<close>

datatype UpdateOutcome = Accepted nat json | Rejected int string | Timeout

datatype registry_error = DuplicateToken

text \<open>
  Modelled from the spec: the Correlation Registry has no source file. A pending entry maps
  a correlation token to the time of issue and the result handler (section 3); \<open>register\<close>
  and \<open>resolve\<close> are section 4.3: \<open>register\<close> fails on a token already pending,
  \<open>resolve\<close> looks the entry up, removes it and invokes its handler once, and drops the
  resolution when there is no entry. A handler acts on the caller's state \<open>'s\<close>;
  \<open>invocations\<close> records each handler call.
\<close>

record 's registry =
  pending :: "string \<Rightarrow> (nat \<times> (UpdateOutcome \<Rightarrow> 's \<Rightarrow> 's)) option"
  invocations :: "(string \<times> UpdateOutcome) list"

definition register :: "string \<Rightarrow> nat \<Rightarrow> (UpdateOutcome \<Rightarrow> 's \<Rightarrow> 's) \<Rightarrow> 's registry \<Rightarrow> registry_error + 's registry" where
  "register token issuedAt handler reg =
     (case pending reg token of
        Some entry \<Rightarrow> Inl DuplicateToken
      | None \<Rightarrow> Inr (reg\<lparr>pending := (pending reg)(token \<mapsto> (issuedAt, handler))\<rparr>))"

definition resolve :: "string \<Rightarrow> UpdateOutcome \<Rightarrow> 's registry \<times> 's \<Rightarrow> 's registry \<times> 's" where
  "resolve token outcome rs =
     (case pending (fst rs) token of
        None \<Rightarrow> rs
      | Some (issuedAt, handler) \<Rightarrow>
          ((fst rs)\<lparr>pending := (pending (fst rs))(token := None),
                    invocations := invocations (fst rs) @ [(token, outcome)]\<rparr>,
           handler outcome (snd rs)))"

definition emptyRegistry :: "'s registry" where
  "emptyRegistry = \<lparr>pending = (\<lambda>token. None), invocations = []\<rparr>"

text \<open>
  The sample's two outcome callbacks as one result handler, to run the registry with: an
  accepted outcome carries the new version and the resulting state, whose \<open>reported\<close>
  member the accepted callback reads.
\<close>

definition outcomeHandler :: "config \<Rightarrow> UpdateOutcome \<Rightarrow> sample \<Rightarrow> sample" where
  "outcomeHandler cfg outcome s =
     (case outcome of
        Accepted newVersion resultingState \<Rightarrow>
          onUpdateShadowAccepted cfg
            (Some \<lparr>resp_State = Some \<lparr>Reported = objectItem resultingState ''reported'',
                                          Desired = objectItem resultingState ''desired''\<rparr>,
                   resp_ClientToken = None, resp_Version = Some newVersion\<rparr>) 0 s
      | Rejected errorCode message \<Rightarrow>
          onUpdateShadowRejected (Some \<lparr>err_Message = Some message, err_Code = Some errorCode\<rparr>) 0 s
      | Timeout \<Rightarrow> s)"

definition reportedOn :: json where
  "reportedOn = JObject [(''reported'', JObject [(''power'', JString ''on'')])]"

section \<open>Envelope codec of the requests without a payload\<close>

text \<open>
  Modelled from the spec: the class declarations of \<open>DeleteShadowRequest\<close> and
  \<open>UpdateJobExecutionSubscriptionRequest\<close> are not among the sources. Their members are
  optional (section 9) and name the resource the request is about: the thing, and for a
  job execution the job; the sample sets \<open>ThingName\<close> in the same way on its shadow
  requests.
\<close>

record DeleteShadowRequest =
  dsr_ThingName :: "string option"

record UpdateJobExecutionSubscriptionRequest =
  ujesr_ThingName :: "string option"
  ujesr_JobId :: "string option"

text \<open>
  The generated functions, from the sources: both bodies of both classes are empty, and
  the constructor from a document runs \<open>LoadFromObject\<close> on a default-constructed object.
\<close>

definition DeleteShadowRequest_default :: DeleteShadowRequest where
  "DeleteShadowRequest_default = \<lparr>dsr_ThingName = None\<rparr>"

definition DeleteShadowRequest_LoadFromObject :: "DeleteShadowRequest \<Rightarrow> json \<Rightarrow> DeleteShadowRequest" where
  "DeleteShadowRequest_LoadFromObject val doc = val"

definition DeleteShadowRequest_SerializeToObject :: "DeleteShadowRequest \<Rightarrow> json \<Rightarrow> json" where
  "DeleteShadowRequest_SerializeToObject this object = object"

definition DeleteShadowRequest_from :: "json \<Rightarrow> DeleteShadowRequest" where
  "DeleteShadowRequest_from doc = DeleteShadowRequest_LoadFromObject DeleteShadowRequest_default doc"

definition UpdateJobExecutionSubscriptionRequest_default :: UpdateJobExecutionSubscriptionRequest where
  "UpdateJobExecutionSubscriptionRequest_default = \<lparr>ujesr_ThingName = None, ujesr_JobId = None\<rparr>"

definition UpdateJobExecutionSubscriptionRequest_LoadFromObject ::
    "UpdateJobExecutionSubscriptionRequest \<Rightarrow> json \<Rightarrow> UpdateJobExecutionSubscriptionRequest" where
  "UpdateJobExecutionSubscriptionRequest_LoadFromObject val doc = val"

definition UpdateJobExecutionSubscriptionRequest_SerializeToObject ::
    "UpdateJobExecutionSubscriptionRequest \<Rightarrow> json \<Rightarrow> json" where
  "UpdateJobExecutionSubscriptionRequest_SerializeToObject this object = object"

definition UpdateJobExecutionSubscriptionRequest_from :: "json \<Rightarrow> UpdateJobExecutionSubscriptionRequest" where
  "UpdateJobExecutionSubscriptionRequest_from doc =
     UpdateJobExecutionSubscriptionRequest_LoadFromObject UpdateJobExecutionSubscriptionRequest_default doc"

text \<open>
  The codec of section 4.1 on these classes: \<open>encode\<close> serialises into a fresh document,
  \<open>decode\<close> constructs the value from a document.
\<close>

definition encode_DeleteShadowRequest :: "DeleteShadowRequest \<Rightarrow> json" where
  "encode_DeleteShadowRequest v = DeleteShadowRequest_SerializeToObject v JNull"

definition decode_DeleteShadowRequest :: "json \<Rightarrow> DeleteShadowRequest" where
  "decode_DeleteShadowRequest doc = DeleteShadowRequest_from doc"

definition encode_UpdateJobExecutionSubscriptionRequest :: "UpdateJobExecutionSubscriptionRequest \<Rightarrow> json" where
  "encode_UpdateJobExecutionSubscriptionRequest v = UpdateJobExecutionSubscriptionRequest_SerializeToObject v JNull"

definition decode_UpdateJobExecutionSubscriptionRequest :: "json \<Rightarrow> UpdateJobExecutionSubscriptionRequest" where
  "decode_UpdateJobExecutionSubscriptionRequest doc = UpdateJobExecutionSubscriptionRequest_from doc"

section \<open>Facts about the sample's building blocks\<close>

lemmas sample_defs = print_def exit_with_def PublishUpdateShadow_def notify_one_def
  subscriptionsCompleted_def AWS_OP_SUCCESS_def

lemma published_print [simp]: "published (print l s) = published s"
  by (simp add: print_def)

lemma uuidsDrawn_print [simp]: "uuidsDrawn (print l s) = uuidsDrawn s"
  by (simp add: print_def)

lemma exited_print [simp]: "exited (print l s) = exited s"
  by (simp add: print_def)

lemma phase_print [simp]: "phase (print l s) = phase s"
  by (simp add: print_def)

lemma published_exit_with [simp]: "published (exit_with c s) = published s"
  by (simp add: exit_with_def)

lemma uuidsDrawn_exit_with [simp]: "uuidsDrawn (exit_with c s) = uuidsDrawn s"
  by (simp add: exit_with_def)

lemma stateDocumentFor_eq:
  "stateDocumentFor p v =
     JObject [(''reported'', JObject [(p, JString v)]), (''desired'', JObject [(p, JString v)])]"
  by (simp add: stateDocumentFor_def WithString_def WithObject_def)

lemma published_s_changeShadowValue:
  "published (s_changeShadowValue cfg v s) = published s @ [requestFor cfg (uuidsDrawn s) v]"
  by (simp add: s_changeShadowValue_def PublishUpdateShadow_def requestFor_def stateDocumentFor_eq)

lemma uuidsDrawn_s_changeShadowValue:
  "uuidsDrawn (s_changeShadowValue cfg v s) = Suc (uuidsDrawn s)"
  by (simp add: s_changeShadowValue_def PublishUpdateShadow_def)

lemma exited_s_changeShadowValue:
  "exited (s_changeShadowValue cfg v s) = exited s"
  by (simp add: s_changeShadowValue_def PublishUpdateShadow_def)

lemma phase_s_changeShadowValue [simp]: "phase (s_changeShadowValue cfg v s) = phase s"
  by (simp add: s_changeShadowValue_def PublishUpdateShadow_def Let_def)

lemma objectItem_string:
  "objectItem st p = Some (JString d) \<Longrightarrow>
     ValueExists r st p \<and> \<not> IsNull (GetJsonObject st p) \<and> GetString st p = d"
  by (simp add: ValueExists_def IsNull_def GetJsonObject_def GetString_def)


lemma desiredValue_string:
  "objectItem st (shadowProperty cfg) = Some (JString d) \<Longrightarrow> desiredValue cfg st = d"
  by (simp add: desiredValue_def IsNull_def GetJsonObject_def GetString_def)

lemma published_onDeltaUpdated_exists:
  assumes "ValueExists (nullValueExists cfg) st (shadowProperty cfg)"
  shows "published (onDeltaUpdated cfg (Some \<lparr>delta_State = Some st, delta_Version = n\<rparr>) ioErr s)
         = published s @ [requestFor cfg (uuidsDrawn s) (desiredValue cfg st)]"
  using assms
  by (simp add: onDeltaUpdated_def Let_def desiredValue_def published_s_changeShadowValue)

lemma uuidsDrawn_onDeltaUpdated_exists:
  assumes "ValueExists (nullValueExists cfg) st (shadowProperty cfg)"
  shows "uuidsDrawn (onDeltaUpdated cfg (Some \<lparr>delta_State = Some st, delta_Version = n\<rparr>) ioErr s)
         = Suc (uuidsDrawn s)"
  using assms
  by (simp add: onDeltaUpdated_def Let_def uuidsDrawn_s_changeShadowValue)


lemma published_onDeltaUpdated_string:
  assumes "objectItem st (shadowProperty cfg) = Some (JString d)"
  shows "published (onDeltaUpdated cfg (Some \<lparr>delta_State = Some st, delta_Version = n\<rparr>) ioErr s)
         = published s @ [requestFor cfg (uuidsDrawn s) d]"
  using objectItem_string [OF assms, of "nullValueExists cfg"]
  by (simp add: onDeltaUpdated_def Let_def published_s_changeShadowValue)

lemma uuidsDrawn_onDeltaUpdated_string:
  assumes "objectItem st (shadowProperty cfg) = Some (JString d)"
  shows "uuidsDrawn (onDeltaUpdated cfg (Some \<lparr>delta_State = Some st, delta_Version = n\<rparr>) ioErr s)
         = Suc (uuidsDrawn s)"
  using objectItem_string [OF assms, of "nullValueExists cfg"]
  by (simp add: onDeltaUpdated_def Let_def uuidsDrawn_s_changeShadowValue)

lemma exited_onDeltaUpdated_ok:
  "exited (onDeltaUpdated cfg ev 0 s) = exited s"
  by (simp add: onDeltaUpdated_def Let_def exited_s_changeShadowValue split: option.splits)

lemma published_onUpdateShadowAccepted:
  "published (onUpdateShadowAccepted cfg r e s) = published s"
  by (simp add: onUpdateShadowAccepted_def split: option.splits)

lemma published_onUpdateShadowRejected:
  "published (onUpdateShadowRejected r e s) = published s"
  by (simp add: onUpdateShadowRejected_def split: option.splits)

lemmas run_simps = run_def subscribed_def delta_def started_def demo_def deliver_def
  onDeltaUpdatedSubAck_def onDeltaUpdatedAcceptedSubAck_def onDeltaUpdatedRejectedSubAck_def
  onDeltaUpdated_def onUpdateShadowAccepted_def onUpdateShadowRejected_def inputLoop_def
  s_changeShadowValue_def stateDocumentFor_eq requestFor_def
  ValueExists_def IsNull_def GetJsonObject_def GetString_def Let_def sample_defs
  SHADOW_VALUE_DEFAULT_def

text \<open>
  The wait is a join: the main thread is in the input loop only if it already was, or all
  three flags are set.
\<close>

lemma join_needs_all_flags:
  "phase (deliver cfg e s) = Synced \<Longrightarrow> phase s = Synced \<or> subscriptionsCompleted (deliver cfg e s)"
  by (cases e)
    (auto simp: deliver_def onDeltaUpdatedSubAck_def onDeltaUpdatedAcceptedSubAck_def
      onDeltaUpdatedRejectedSubAck_def onDeltaUpdated_def onUpdateShadowAccepted_def
      onUpdateShadowRejected_def inputLoop_def notify_one_def exit_with_def Let_def
      subscriptionsCompleted_def print_def
      split: if_splits option.splits)

lemma FromString_names:
  assumes "inj_on HashString (set statusNames)"
  shows "FromString HashString ndebug ''QUEUED'' = Inr (Enumerator QUEUED)"
    and "FromString HashString ndebug ''IN_PROGRESS'' = Inr (Enumerator IN_PROGRESS)"
    and "FromString HashString ndebug ''FAILED'' = Inr (Enumerator FAILED)"
    and "FromString HashString ndebug ''SUCCESS'' = Inr (Enumerator SUCCESS)"
    and "FromString HashString ndebug ''CANCELED'' = Inr (Enumerator CANCELED)"
    and "FromString HashString ndebug ''REJECTED'' = Inr (Enumerator REJECTED)"
    and "FromString HashString ndebug ''REMOVED'' = Inr (Enumerator REMOVED)"
  using assms
  by (auto simp: FromString_def c_str_def statusNames_def Let_def)

section \<open>The claims\<close>

subsection \<open>C1: the Version Guard's policy\<close>

text \<open>
  C1. For every candidate version \<open>b\<close> and current version \<open>a\<close>, \<open>accept\<close> returns
  \<open>Advance\<close> exactly when the current version is unset or \<open>b > a\<close>, and \<open>StaleIgnore\<close>
  for every tie and every lower \<open>b\<close>.
\<close>

theorem accept_policy:
  "accept b None = Advance \<and> (accept b (Some a) = Advance \<longleftrightarrow> a < b)
   \<and> (accept b (Some a) = StaleIgnore \<longleftrightarrow> b \<le> a)"
  by (auto simp: accept_def)

text \<open>C1 at versions 0, 4, 5 and 6 against an unset current version and against 5.\<close>

theorem accept_policy_witness:
  "accept 0 None = Advance \<and> accept 6 (Some 5) = Advance \<and> accept 5 (Some 5) = StaleIgnore
   \<and> accept 4 (Some 5) = StaleIgnore"
  using accept_policy [of 0 0] accept_policy [of 6 5] accept_policy [of 5 5] accept_policy [of 4 5]
  by simp

subsection \<open>C2: notifications with an old version\<close>

text \<open>
  C2 fails on the sample: after a delta with version 6, a delta with version 5 for the
  watched property still issues an UpdateRequest.
\<close>

theorem stale_delta_counterexample:
  "published (run demo started (subscribed @ [delta (JString ''on'') 6, delta (JString ''off'') 5]))
     = [requestFor demo 0 ''on'', requestFor demo 1 ''off'']
   \<and> published (run demo started (subscribed @ [delta (JString ''on'') 6, delta (JString ''off'') 5]))
     \<noteq> published (run demo started (subscribed @ [delta (JString ''on'') 6]))"
  by (simp add: run_simps)

text \<open>
  C2 as amended. The delta callback never reads the version a notification carries: a
  notification has the same effect whatever its version is, and one whose state holds a
  string for the watched property issues one UpdateRequest for that string.
\<close>

theorem delta_version_not_read:
  "deliver cfg (DeltaUpdated (Some (ev\<lparr>delta_Version := n\<rparr>)) ioErr) s
     = deliver cfg (DeltaUpdated (Some ev) ioErr) s
   \<and> (exited s = None \<longrightarrow> objectItem st (shadowProperty cfg) = Some (JString d) \<longrightarrow>
        published (deliver cfg (DeltaUpdated (Some \<lparr>delta_State = Some st, delta_Version = n\<rparr>) ioErr) s)
          = published s @ [requestFor cfg (uuidsDrawn s) d])"
  by (simp add: deliver_def published_onDeltaUpdated_string) (simp add: onDeltaUpdated_def Let_def)

text \<open>C2 as amended, on the sample after a delta with version 6.\<close>

theorem delta_version_not_read_witness:
  "deliver demo (delta (JString ''off'') 5) (run demo started (subscribed @ [delta (JString ''on'') 6]))
     = deliver demo (delta (JString ''off'') 7) (run demo started (subscribed @ [delta (JString ''on'') 6]))
   \<and> exited started = None
   \<and> objectItem (JObject [(''power'', JString ''on'')]) (shadowProperty demo) = Some (JString ''on'')
   \<and> published (deliver demo (delta (JString ''on'') 0) started) = [requestFor demo 0 ''on'']"
proof -
  let ?ev = "\<lparr>delta_State = Some (JObject [(''power'', JString ''off'')]), delta_Version = Some 5\<rparr>"
  have m: "objectItem (JObject [(''power'', JString ''on'')]) (shadowProperty demo) = Some (JString ''on'')"
    by (simp add: demo_def)
  have e: "exited started = None"
    by (simp add: started_def)
  from delta_version_not_read [where cfg = demo and ev = ?ev and n = "Some 7" and ioErr = 0]
  have "deliver demo (delta (JString ''off'') 7) s = deliver demo (delta (JString ''off'') 5) s" for s
    by (simp add: delta_def)
  moreover
  from delta_version_not_read [where cfg = demo and ev = ?ev and n = "Some 0" and ioErr = 0
      and s = started and st = "JObject [(''power'', JString ''on'')]" and d = "''on''"] m e
  have "published (deliver demo (delta (JString ''on'') 0) started) = [requestFor demo 0 ''on'']"
    by (simp add: delta_def started_def)
  ultimately show ?thesis using m e by simp
qed

subsection \<open>C3: notifications while an update is in flight\<close>

text \<open>
  C3 fails on the sample: with the update for \<open>on\<close> in flight, deltas for \<open>dim\<close> and
  then \<open>off\<close> issue two more UpdateRequests at once, the first of them for \<open>dim\<close>, and
  the accepted response that resolves the first update issues none.
\<close>

theorem coalescing_counterexample:
  "published (run demo started (subscribed @
      [delta (JString ''on'') 6, delta (JString ''dim'') 7, delta (JString ''off'') 8]))
     = [requestFor demo 0 ''on'', requestFor demo 1 ''dim'', requestFor demo 2 ''off'']
   \<and> published (run demo started (subscribed @
      [delta (JString ''on'') 6, delta (JString ''dim'') 7, delta (JString ''off'') 8,
       UpdateShadowAccepted (Some \<lparr>resp_State = Some \<lparr>Reported = Some (JObject [(''power'', JString ''on'')]),
            Desired = None\<rparr>, resp_ClientToken = Some (UUID demo 0), resp_Version = Some 7\<rparr>) 0]))
     = [requestFor demo 0 ''on'', requestFor demo 1 ''dim'', requestFor demo 2 ''off'']"
  by (simp add: run_simps eval_nat_numeral)

text \<open>
  C3 as amended. Every notification for which the sample's test \<open>ValueExists\<close> holds
  issues its own UpdateRequest when it arrives, for the string the callback reads from it,
  which for a string value is that string: two notifications with the strings \<open>d1\<close> then
  \<open>d2\<close> issue two requests, for \<open>d1\<close> then for \<open>d2\<close>, and an accepted or rejected
  response issues none.
\<close>

theorem deltas_not_coalesced:
  assumes "exited s = None"
    and "ValueExists (nullValueExists cfg) st1 (shadowProperty cfg)"
    and "ValueExists (nullValueExists cfg) st2 (shadowProperty cfg)"
  shows "published (deliver cfg (DeltaUpdated (Some \<lparr>delta_State = Some st2, delta_Version = n2\<rparr>) 0)
            (deliver cfg (DeltaUpdated (Some \<lparr>delta_State = Some st1, delta_Version = n1\<rparr>) 0) s))
         = published s @ [requestFor cfg (uuidsDrawn s) (desiredValue cfg st1),
                          requestFor cfg (Suc (uuidsDrawn s)) (desiredValue cfg st2)]
       \<and> (objectItem st1 (shadowProperty cfg) = Some (JString d1) \<longrightarrow> desiredValue cfg st1 = d1)
       \<and> (objectItem st2 (shadowProperty cfg) = Some (JString d2) \<longrightarrow> desiredValue cfg st2 = d2)
       \<and> published (deliver cfg (UpdateShadowAccepted response ioErr) s) = published s
       \<and> published (deliver cfg (UpdateShadowRejected error ioErr) s) = published s"
  using assms
  by (simp add: deliver_def exited_onDeltaUpdated_ok published_onDeltaUpdated_exists
      uuidsDrawn_onDeltaUpdated_exists published_onUpdateShadowAccepted
      published_onUpdateShadowRejected desiredValue_string)

text \<open>C3 as amended, on deltas for \<open>dim\<close> and \<open>off\<close>, and on deltas for a number and a string.\<close>

theorem deltas_not_coalesced_witness:
  "exited started = None
   \<and> ValueExists (nullValueExists demo) (JObject [(''power'', JString ''dim'')]) (shadowProperty demo)
   \<and> ValueExists (nullValueExists demo) (JObject [(''power'', JString ''off'')]) (shadowProperty demo)
   \<and> objectItem (JObject [(''power'', JString ''dim'')]) (shadowProperty demo) = Some (JString ''dim'')
   \<and> objectItem (JObject [(''power'', JString ''off'')]) (shadowProperty demo) = Some (JString ''off'')
   \<and> published (deliver demo (delta (JString ''off'') 8) (deliver demo (delta (JString ''dim'') 7) started))
       = [requestFor demo 0 ''dim'', requestFor demo 1 ''off'']
   \<and> ValueExists (nullValueExists demo) (JObject [(''power'', JNumber 3)]) (shadowProperty demo)
   \<and> published (deliver demo (delta (JString ''off'') 8) (deliver demo (delta (JNumber 3) 7) started))
       = [requestFor demo 0 [], requestFor demo 1 ''off'']"
proof -
  let ?dim = "JObject [(''power'', JString ''dim'')]"
  let ?off = "JObject [(''power'', JString ''off'')]"
  let ?three = "JObject [(''power'', JNumber 3)]"
  have e: "exited started = None"
    by (simp add: started_def)
  have v1: "ValueExists (nullValueExists demo) ?dim (shadowProperty demo)"
    by (simp add: ValueExists_def demo_def)
  have v2: "ValueExists (nullValueExists demo) ?off (shadowProperty demo)"
    by (simp add: ValueExists_def demo_def)
  have v3: "ValueExists (nullValueExists demo) ?three (shadowProperty demo)"
    by (simp add: ValueExists_def demo_def)
  have m1: "objectItem ?dim (shadowProperty demo) = Some (JString ''dim'')"
    by (simp add: demo_def)
  have m2: "objectItem ?off (shadowProperty demo) = Some (JString ''off'')"
    by (simp add: demo_def)
  have d3: "desiredValue demo ?three = []"
    by (simp add: desiredValue_def IsNull_def GetJsonObject_def GetString_def demo_def)
  from deltas_not_coalesced [OF e v1 v2, where ?n1.0 = "Some 7" and ?n2.0 = "Some 8"
      and ?d1.0 = "''dim''" and ?d2.0 = "''off''"] m1 m2
  have a: "published (deliver demo (delta (JString ''off'') 8) (deliver demo (delta (JString ''dim'') 7) started))
       = [requestFor demo 0 ''dim'', requestFor demo 1 ''off'']"
    by (simp add: delta_def started_def)
  from deltas_not_coalesced [OF e v3 v2, where ?n1.0 = "Some 7" and ?n2.0 = "Some 8"
      and ?d2.0 = "''off''"] m2 d3
  have b: "published (deliver demo (delta (JString ''off'') 8) (deliver demo (delta (JNumber 3) 7) started))
       = [requestFor demo 0 [], requestFor demo 1 ''off'']"
    by (simp add: delta_def started_def)
  from e v1 v2 v3 m1 m2 a b show ?thesis by simp
qed

subsection \<open>C4: a second delivery of an accepted outcome\<close>

text \<open>
  C4. Resolving a pending token with an accepted outcome removes the entry and invokes its
  handler once; delivering the same accepted outcome for the token again changes neither
  the registry nor the caller's state: the handler is not invoked a second time.
\<close>

theorem resolve_twice:
  "(pending reg token = Some (issuedAt, handler) \<longrightarrow>
      resolve token (Accepted v doc) (reg, st)
        = (reg\<lparr>pending := (pending reg)(token := None),
                invocations := invocations reg @ [(token, Accepted v doc)]\<rparr>,
           handler (Accepted v doc) st))
   \<and> resolve token (Accepted v doc) (resolve token (Accepted v doc) (reg, st))
        = resolve token (Accepted v doc) (reg, st)"
  by (simp add: resolve_def split: option.splits)

text \<open>
  C4 with the sample's callbacks as the handler: after two deliveries the accepted
  callback has printed once.
\<close>

theorem resolve_twice_witness:
  "register ''token-'' 0 (outcomeHandler demo) emptyRegistry
     = Inr (emptyRegistry\<lparr>pending := (pending emptyRegistry)(''token-'' \<mapsto> (0, outcomeHandler demo))\<rparr>)
   \<and> pending (emptyRegistry\<lparr>pending := (pending emptyRegistry)(''token-'' \<mapsto> (0, outcomeHandler demo))\<rparr>)
        ''token-'' = Some (0, outcomeHandler demo)
   \<and> console (snd (resolve ''token-'' (Accepted 6 reportedOn) (resolve ''token-'' (Accepted 6 reportedOn)
        (emptyRegistry\<lparr>pending := (pending emptyRegistry)(''token-'' \<mapsto> (0, outcomeHandler demo))\<rparr>,
         started))))
     = [Finished_updating_reported ''on'', Enter_desired_value]"
proof -
  let ?h = "outcomeHandler demo"
  let ?reg = "emptyRegistry\<lparr>pending := (pending emptyRegistry)(''token-'' \<mapsto> (0, ?h))\<rparr>"
  have r: "register ''token-'' 0 ?h emptyRegistry = Inr ?reg"
    by (simp add: register_def emptyRegistry_def)
  have p: "pending ?reg ''token-'' = Some (0, ?h)"
    by simp
  note both = resolve_twice [where reg = ?reg and token = "''token-''" and issuedAt = 0
      and handler = ?h and v = 6 and doc = reportedOn and st = started]
  from both p have first: "snd (resolve ''token-'' (Accepted 6 reportedOn) (?reg, started))
        = ?h (Accepted 6 reportedOn) started"
    by (simp only: snd_conv)
  from both have second:
    "resolve ''token-'' (Accepted 6 reportedOn) (resolve ''token-'' (Accepted 6 reportedOn) (?reg, started))
        = resolve ''token-'' (Accepted 6 reportedOn) (?reg, started)"
    by (rule conjunct2)
  have "snd (resolve ''token-'' (Accepted 6 reportedOn) (resolve ''token-'' (Accepted 6 reportedOn) (?reg, started)))
        = ?h (Accepted 6 reportedOn) started"
    by (simp only: second first)
  moreover have "console (?h (Accepted 6 reportedOn) started)
        = [Finished_updating_reported ''on'', Enter_desired_value]"
    by (simp add: outcomeHandler_def reportedOn_def onUpdateShadowAccepted_def demo_def started_def
        GetString_def sample_defs)
  ultimately show ?thesis
    using r p by simp
qed

subsection \<open>C5: the update mirrors the desired value\<close>

text \<open>
  C5. \<open>s_changeShadowValue\<close> issues exactly one UpdateRequest, whose state sets the
  watched property to the given value under both \<open>reported\<close> and \<open>desired\<close>; and a
  delta whose state holds the string \<open>d\<close> for the watched property issues that request
  for \<open>d\<close>.
\<close>

theorem update_mirrors_desired:
  "published (s_changeShadowValue cfg v s) = published s @ [requestFor cfg (uuidsDrawn s) v]
   \<and> (exited s = None \<longrightarrow> objectItem st (shadowProperty cfg) = Some (JString d) \<longrightarrow>
        published (deliver cfg (DeltaUpdated (Some \<lparr>delta_State = Some st, delta_Version = n\<rparr>) ioErr) s)
          = published s @ [requestFor cfg (uuidsDrawn s) d])"
  by (simp add: deliver_def published_onDeltaUpdated_string published_s_changeShadowValue)

text \<open>C5 on a delta that asks for \<open>on\<close>.\<close>

theorem update_mirrors_desired_witness:
  "exited started = None
   \<and> objectItem (JObject [(''power'', JString ''on'')]) (shadowProperty demo) = Some (JString ''on'')
   \<and> published (deliver demo (delta (JString ''on'') 6) started)
       = [\<lparr>req_ClientToken = Some ''token-'',
           req_State = Some (JObject [(''reported'', JObject [(''power'', JString ''on'')]),
                                      (''desired'', JObject [(''power'', JString ''on'')])]),
           req_ThingName = Some ''lamp''\<rparr>]"
proof -
  have e: "exited started = None"
    by (simp add: started_def)
  have m: "objectItem (JObject [(''power'', JString ''on'')]) (shadowProperty demo) = Some (JString ''on'')"
    by (simp add: demo_def)
  from update_mirrors_desired [where cfg = demo and s = started and n = "Some 6" and ioErr = 0
      and st = "JObject [(''power'', JString ''on'')]" and d = "''on''"] e m
  have "published (deliver demo (delta (JString ''on'') 6) started) = [requestFor demo 0 ''on'']"
    by (simp add: delta_def started_def)
  then show ?thesis
    using e m by (simp add: requestFor_def demo_def)
qed

subsection \<open>C6: the join on the three subscriptions\<close>

text \<open>
  C6 at the failing input. The delta and accepted subscriptions are confirmed and the
  rejected subscription fails with error 5: the main thread enters the input loop all
  the same, the process goes on, and the next input is published. A failure of either of
  the other two subscriptions ends the process with \<open>exit(-1)\<close>.
\<close>

theorem rejected_suback_failure_proceeds:
  "phase (run demo started [DeltaUpdatedSubAck 0, DeltaUpdatedAcceptedSubAck 0, DeltaUpdatedRejectedSubAck 5]) = Synced
   \<and> exited (run demo started [DeltaUpdatedSubAck 0, DeltaUpdatedAcceptedSubAck 0, DeltaUpdatedRejectedSubAck 5]) = None
   \<and> published (run demo started [DeltaUpdatedSubAck 0, DeltaUpdatedAcceptedSubAck 0,
         DeltaUpdatedRejectedSubAck 5, Input ''on'']) = [requestFor demo 0 ''on'']
   \<and> exited (run demo started [DeltaUpdatedSubAck 0, DeltaUpdatedAcceptedSubAck 5]) = Some (Exit (- 1))
   \<and> exited (run demo started [DeltaUpdatedSubAck 5]) = Some (Exit (- 1))"
  by (simp add: run_simps)

subsection \<open>C7: the codec of the requests without a payload\<close>

text \<open>
  C7 fails on both classes: a request with its thing name set is encoded and decoded to
  a request without one.
\<close>

theorem empty_codec_counterexample:
  "decode_DeleteShadowRequest (encode_DeleteShadowRequest \<lparr>dsr_ThingName = Some ''lamp''\<rparr>)
     \<noteq> \<lparr>dsr_ThingName = Some ''lamp''\<rparr>
   \<and> decode_UpdateJobExecutionSubscriptionRequest (encode_UpdateJobExecutionSubscriptionRequest
        \<lparr>ujesr_ThingName = Some ''lamp'', ujesr_JobId = None\<rparr>)
     \<noteq> \<lparr>ujesr_ThingName = Some ''lamp'', ujesr_JobId = None\<rparr>"
  by (simp add: decode_DeleteShadowRequest_def encode_DeleteShadowRequest_def
      DeleteShadowRequest_from_def DeleteShadowRequest_LoadFromObject_def
      DeleteShadowRequest_default_def
      decode_UpdateJobExecutionSubscriptionRequest_def
      UpdateJobExecutionSubscriptionRequest_from_def
      UpdateJobExecutionSubscriptionRequest_LoadFromObject_def
      UpdateJobExecutionSubscriptionRequest_default_def)

text \<open>
  C7 as amended. For \<open>DeleteShadowRequest\<close> and \<open>UpdateJobExecutionSubscriptionRequest\<close>
  encoding emits no member and decoding reads none: every document decodes to the value
  with all optional members absent, so decoding the encoding of a value gives the value
  back exactly when none of its optional members is populated.
\<close>

theorem empty_codec_roundtrip:
  "encode_DeleteShadowRequest v = JNull
   \<and> decode_DeleteShadowRequest doc = DeleteShadowRequest_default
   \<and> (decode_DeleteShadowRequest (encode_DeleteShadowRequest v) = v \<longleftrightarrow> v = DeleteShadowRequest_default)
   \<and> encode_UpdateJobExecutionSubscriptionRequest w = JNull
   \<and> decode_UpdateJobExecutionSubscriptionRequest doc = UpdateJobExecutionSubscriptionRequest_default
   \<and> (decode_UpdateJobExecutionSubscriptionRequest (encode_UpdateJobExecutionSubscriptionRequest w) = w
        \<longleftrightarrow> w = UpdateJobExecutionSubscriptionRequest_default)"
  by (auto simp: decode_DeleteShadowRequest_def encode_DeleteShadowRequest_def
      DeleteShadowRequest_from_def DeleteShadowRequest_LoadFromObject_def
      DeleteShadowRequest_SerializeToObject_def
      decode_UpdateJobExecutionSubscriptionRequest_def
      encode_UpdateJobExecutionSubscriptionRequest_def
      UpdateJobExecutionSubscriptionRequest_from_def
      UpdateJobExecutionSubscriptionRequest_LoadFromObject_def
      UpdateJobExecutionSubscriptionRequest_SerializeToObject_def)

text \<open>C7 as amended, on the request with no member populated and on a document with a member.\<close>

theorem empty_codec_roundtrip_witness:
  "decode_DeleteShadowRequest (encode_DeleteShadowRequest \<lparr>dsr_ThingName = None\<rparr>) = \<lparr>dsr_ThingName = None\<rparr>
   \<and> decode_DeleteShadowRequest (JObject [(''thingName'', JString ''lamp'')]) = \<lparr>dsr_ThingName = None\<rparr>"
proof -
  note codec = empty_codec_roundtrip [where v = "\<lparr>dsr_ThingName = None\<rparr>"
      and doc = "JObject [(''thingName'', JString ''lamp'')]"]
  have d: "\<lparr>dsr_ThingName = None\<rparr> = DeleteShadowRequest_default"
    by (simp add: DeleteShadowRequest_default_def)
  from codec d have "decode_DeleteShadowRequest (encode_DeleteShadowRequest \<lparr>dsr_ThingName = None\<rparr>)
      = \<lparr>dsr_ThingName = None\<rparr>"
    by blast
  moreover from codec d have "decode_DeleteShadowRequest (JObject [(''thingName'', JString ''lamp'')])
      = \<lparr>dsr_ThingName = None\<rparr>"
    by simp
  ultimately show ?thesis by blast
qed

subsection \<open>C8: a notification without the watched property\<close>

text \<open>
  C8. A ChangeNotification whose state is absent or does not contain the watched property
  (\<open>ValueExists\<close> is false, as it is for an absent key under either answer of the
  library) issues no UpdateRequest, whatever error code comes with it; delivered without
  an error it leaves the whole state as it was, but for the two lines the callback prints.
\<close>

theorem unwatched_delta_ignored:
  assumes "case delta_State ev of None \<Rightarrow> True | Some st \<Rightarrow> \<not> ValueExists (nullValueExists cfg) st (shadowProperty cfg)"
  shows "published (deliver cfg (DeltaUpdated (Some ev) ioErr) s) = published s
       \<and> (deliver cfg (DeltaUpdated (Some ev) 0) s)\<lparr>console := console s\<rparr> = s
       \<and> (exited s = None \<longrightarrow>
            deliver cfg (DeltaUpdated (Some ev) 0) s
              = s\<lparr>console := console s @ [Received_shadow_delta_event,
                                             Delta_did_not_report_a_change (shadowProperty cfg)]\<rparr>)"
  using assms
  by (cases "delta_State ev") (simp_all add: deliver_def onDeltaUpdated_def Let_def print_def)

text \<open>C8 on a delta for another property, delivered to the sample in its input loop.\<close>

theorem unwatched_delta_ignored_witness:
  "(case delta_State \<lparr>delta_State = Some (JObject [(''colour'', JString ''red'')]), delta_Version = Some 6\<rparr> of
      None \<Rightarrow> True | Some st \<Rightarrow> \<not> ValueExists (nullValueExists demo) st (shadowProperty demo))
   \<and> exited (run demo started subscribed) = None
   \<and> deliver demo (DeltaUpdated (Some \<lparr>delta_State = Some (JObject [(''colour'', JString ''red'')]),
         delta_Version = Some 6\<rparr>) 0) (run demo started subscribed)
     = (run demo started subscribed)\<lparr>console := console (run demo started subscribed)
          @ [Received_shadow_delta_event, Delta_did_not_report_a_change ''power'']\<rparr>"
proof -
  let ?ev = "\<lparr>delta_State = Some (JObject [(''colour'', JString ''red'')]), delta_Version = Some 6\<rparr>"
  have h: "case delta_State ?ev of None \<Rightarrow> True | Some st \<Rightarrow> \<not> ValueExists (nullValueExists demo) st (shadowProperty demo)"
    by (simp add: ValueExists_def demo_def)
  have e: "exited (run demo started subscribed) = None"
    by (simp add: run_simps)
  from unwatched_delta_ignored [OF h, where s = "run demo started subscribed" and ioErr = 0] e
  have "deliver demo (DeltaUpdated (Some ?ev) 0) (run demo started subscribed)
     = (run demo started subscribed)\<lparr>console := console (run demo started subscribed)
          @ [Received_shadow_delta_event, Delta_did_not_report_a_change (shadowProperty demo)]\<rparr>"
    by blast
  with h e show ?thesis by (simp add: demo_def)
qed

subsection \<open>C9: parsing a status name\<close>

text \<open>
  C9 fails on the parse of an unrecognised name: for \<open>BOGUS\<close> the function reaches
  \<open>assert(0)\<close>, which aborts where assertions are compiled in, and otherwise returns the
  value \<open>-1\<close> cast to the enum, which is none of its enumerators. No decode error exists.
\<close>

theorem FromString_unrecognised_counterexample:
  "FromString sampleHash False ''BOGUS'' = Inl AssertionFailed
   \<and> FromString sampleHash True ''BOGUS'' = Inr (OutOfRange (- 1))"
  by (simp add: FromString_def c_str_def sampleHash_def assert0_def Let_def)

text \<open>
  C9 as amended. A string whose hash is none of the seven names' hashes takes
  \<open>FromString\<close> to \<open>assert(0)\<close>: the process aborts, or without assertions the result is
  the out-of-range value \<open>-1\<close>. When the hash takes seven different values at the seven
  names, \<open>FromString\<close> returns for each name its enumerator, so that
  \<open>FromString(ToString(s)) = s\<close> for every enumerator \<open>s\<close>.
\<close>

theorem FromString_marshalling:
  "(HashString (c_str str) \<notin> HashString ` set statusNames \<longrightarrow>
      FromString HashString ndebug str = (if ndebug then Inr (OutOfRange (- 1)) else Inl AssertionFailed))
   \<and> (inj_on HashString (set statusNames) \<longrightarrow>
        (\<exists>name \<in> set statusNames. ToString ndebug (Enumerator s) = Inr name
           \<and> FromString HashString ndebug name = Inr (Enumerator s)))"
proof (intro conjI impI)
  assume "HashString (c_str str) \<notin> HashString ` set statusNames"
  then show "FromString HashString ndebug str = (if ndebug then Inr (OutOfRange (- 1)) else Inl AssertionFailed)"
    by (simp add: FromString_def statusNames_def assert0_def Let_def)
next
  assume "inj_on HashString (set statusNames)"
  from FromString_names [OF this, of ndebug]
  show "\<exists>name \<in> set statusNames. ToString ndebug (Enumerator s) = Inr name
           \<and> FromString HashString ndebug name = Inr (Enumerator s)"
    by (cases s) (simp_all add: statusNames_def)
qed

text \<open>C9 as amended, with a concrete hash, on \<open>BOGUS\<close> and on \<open>IN_PROGRESS\<close>.\<close>

theorem FromString_marshalling_witness:
  "sampleHash (c_str ''BOGUS'') \<notin> sampleHash ` set statusNames
   \<and> inj_on sampleHash (set statusNames)
   \<and> FromString sampleHash True ''BOGUS'' = Inr (OutOfRange (- 1))
   \<and> (\<exists>name \<in> set statusNames. ToString True (Enumerator IN_PROGRESS) = Inr name
         \<and> FromString sampleHash True name = Inr (Enumerator IN_PROGRESS))"
proof -
  have h: "sampleHash (c_str ''BOGUS'') \<notin> sampleHash ` set statusNames"
    by (simp add: statusNames_def sampleHash_def c_str_def)
  have i: "inj_on sampleHash (set statusNames)"
    by (simp add: statusNames_def sampleHash_def)
  from FromString_marshalling [where HashString = sampleHash and str = "''BOGUS''" and ndebug = True
      and s = IN_PROGRESS] h i
  show ?thesis by simp
qed

subsection \<open>C10: a delta whose watched property is null\<close>




end
